theory Spec2Isabelle
  imports Complex_Main
begin

section \<open>Python values and failures\<close>

text \<open>
  Floats are idealised as reals. Every exception the code can raise is a value; an
  assertion carries the line of \<^verbatim>\<open>NeuralNetwork.py\<close> it stands on. Objects are mutated in
  place, so every operation returns the object as it is left behind, also when it raises:
  the result of a call is a pair of the outcome and the state afterwards.
\<close>

datatype error =
    AssertionError nat
  | IndexError
  | TypeError
  | ValueError
  | ZeroDivisionError
  | ContractViolation

text \<open>\<^verbatim>\<open>int(x)\<close> on a float truncates towards zero.\<close>

definition py_int :: "real \<Rightarrow> int" where
  "py_int x = (if 0 \<le> x then \<lfloor>x\<rfloor> else \<lceil>x\<rceil>)"

text \<open>\<^verbatim>\<open>xs[-1]\<close>: IndexError on the empty sequence.\<close>

definition py_last :: "'a list \<Rightarrow> error + 'a" where
  "py_last xs = (case xs of [] \<Rightarrow> Inl IndexError | _ \<Rightarrow> Inr (last xs))"

text \<open>\<^verbatim>\<open>xs[i] = v\<close>: a negative index counts from the end, out of range raises.\<close>

definition py_setitem :: "'a list \<Rightarrow> int \<Rightarrow> 'a \<Rightarrow> error + 'a list" where
  "py_setitem xs i v =
     (let n = int (length xs); j = (if i < 0 then n + i else i)
      in if 0 \<le> j \<and> j < n then Inr (xs[nat j := v]) else Inl IndexError)"

text \<open>\<^verbatim>\<open>max(xs)\<close>: the first greatest item, ValueError on the empty sequence.\<close>

definition py_max :: "real list \<Rightarrow> error + real" where
  "py_max xs = (case xs of [] \<Rightarrow> Inl ValueError
                | x # ys \<Rightarrow> Inr (foldl (\<lambda>m y. if m < y then y else m) x ys))"

text \<open>\<^verbatim>\<open>xs.index(v)\<close>: the first position holding \<open>v\<close>, ValueError when there is none.\<close>

fun py_index :: "real list \<Rightarrow> real \<Rightarrow> error + nat" where
  "py_index [] v = Inl ValueError"
| "py_index (x # xs) v =
     (if x = v then Inr 0
      else (case py_index xs v of Inl e \<Rightarrow> Inl e | Inr i \<Rightarrow> Inr (Suc i)))"

text \<open>\<^verbatim>\<open>functools.reduce(f, xs)\<close> without an initial value: TypeError on the empty sequence.\<close>

definition reduce_py :: "('a \<Rightarrow> 'a \<Rightarrow> 'a) \<Rightarrow> 'a list \<Rightarrow> error + 'a" where
  "reduce_py f xs = (case xs of [] \<Rightarrow> Inl TypeError | x # ys \<Rightarrow> Inr (foldl f x ys))"

section \<open>The neuron unit\<close>

text \<open>
  \<^verbatim>\<open>Perceptron.py\<close> and \<^verbatim>\<open>Math.py\<close> are imported by \<^verbatim>\<open>NeuralNetwork.py\<close> but are not part
  of the sources at hand. The neuron is modelled from section 4.1 of the specification.
  The activation function, its derivative and the learning rate are the same for every
  neuron of a network; they are kept in one configuration passed to every operation.
\<close>

record neuron_cfg =
  activation :: "real \<Rightarrow> real"
  activation_partial :: "real \<Rightarrow> real"
  learning_rate :: real

record perceptron =
  previous_dimension :: int
  weights :: "real list"
  last_output :: real
  delta :: real

text \<open>
  Modelled from the spec: the constructor of \<^verbatim>\<open>Perceptron\<close>, absent from the sources.
  "Created with either explicit initial weights or small random values": the random draw
  is the argument \<open>rnd\<close>. The specification does not say what the caches hold before the
  first forward pass; they start at 0 here.
\<close>

definition Perceptron_init :: "int \<Rightarrow> real list option \<Rightarrow> real list \<Rightarrow> perceptron" where
  "Perceptron_init pdim ws rnd =
     \<lparr>previous_dimension = pdim,
      weights = (case ws of None \<Rightarrow> rnd | Some w \<Rightarrow> w),
      last_output = 0, delta = 0\<rparr>"

text \<open>
  Modelled from the spec: \<^verbatim>\<open>Perceptron.compute_output\<close>, absent from the sources.
  "input length must equal previous_dimension. Computes z = bias_weight + sum of
  weight_i * input_i, applies activation function, stores and returns activation(z)",
  the bias weight being the last weight, "implicitly fed a constant input of 1";
  "input length mismatch is a contract violation (fail-fast)".
\<close>

definition compute_output ::
  "neuron_cfg \<Rightarrow> perceptron \<Rightarrow> real list \<Rightarrow> (error + real) \<times> perceptron" where
  "compute_output cfg p xs =
     (if int (length xs) \<noteq> previous_dimension p then (Inl ContractViolation, p)
      else (let y = activation cfg (sum_list (map2 (*) (weights p) (xs @ [1])))
            in (Inr y, p\<lparr>last_output := y\<rparr>)))"

text \<open>
  Modelled from the spec: \<^verbatim>\<open>Perceptron.compute_delta\<close>, absent from the sources.
  "Computes delta = downstream * activation_derivative(output). Stores delta."
\<close>

definition compute_delta :: "neuron_cfg \<Rightarrow> perceptron \<Rightarrow> real \<Rightarrow> perceptron" where
  "compute_delta cfg p d = p\<lparr>delta := d * activation_partial cfg (last_output p)\<rparr>"

text \<open>
  Modelled from the spec: the property \<^verbatim>\<open>Perceptron.weight_delta\<close>, absent from the sources.
  "vector of length previous_dimension + 1, element i = weight_i * delta (bias weight
  included at the end)".
\<close>

definition weight_delta :: "perceptron \<Rightarrow> real list" where
  "weight_delta p = map (\<lambda>w. w * delta p) (weights p)"

text \<open>
  Modelled from the spec: \<^verbatim>\<open>Perceptron.update_weight\<close>, absent from the sources.
  "For each weight i: weight_i += learning_rate * delta * input_i (bias weight uses
  implicit input 1)"; an input of the wrong length is the contract violation of 4.1.
\<close>

definition update_weight ::
  "neuron_cfg \<Rightarrow> perceptron \<Rightarrow> real list \<Rightarrow> (error + unit) \<times> perceptron" where
  "update_weight cfg p xs =
     (if int (length xs) \<noteq> previous_dimension p then (Inl ContractViolation, p)
      else (Inr (),
            p\<lparr>weights := map2 (\<lambda>w x. w + learning_rate cfg * delta p * x)
                             (weights p) (xs @ [1])\<rparr>))"

section \<open>Layer\<close>

record layer =
  dimension :: int
  neurons :: "perceptron list"
  inputs :: "real list option"

text \<open>
  \<^verbatim>\<open>Layer.__init__\<close> (lines 23 to 34). \<open>ws\<close> is the optional list of weight vectors,
  \<open>rnd i\<close> the random draw of neuron \<open>i\<close>.
\<close>

definition Layer_init ::
  "int \<Rightarrow> int \<Rightarrow> real list list option \<Rightarrow> (nat \<Rightarrow> real list) \<Rightarrow> error + layer" where
  "Layer_init width prev ws rnd =
     (let ws' = (case ws of None \<Rightarrow> replicate (nat width) None | Some w \<Rightarrow> map Some w)
      in if int (length ws') \<noteq> width then Inl (AssertionError 28)
         else Inr \<lparr>dimension = width,
                   neurons = map (\<lambda>i. Perceptron_init prev (ws' ! i) (rnd i)) [0..<nat width],
                   inputs = None\<rparr>)"

text \<open>The list comprehension of \<^verbatim>\<open>Layer.forward\<close>: neurons in order, stopping at a failure.\<close>

fun compute_outputs ::
  "neuron_cfg \<Rightarrow> perceptron list \<Rightarrow> real list \<Rightarrow> (error + real list) \<times> perceptron list" where
  "compute_outputs cfg [] xs = (Inr [], [])"
| "compute_outputs cfg (p # ps) xs =
     (case compute_output cfg p xs of
        (Inl e, p') \<Rightarrow> (Inl e, p' # ps)
      | (Inr y, p') \<Rightarrow>
          (case compute_outputs cfg ps xs of
             (Inl e, ps') \<Rightarrow> (Inl e, p' # ps')
           | (Inr ys, ps') \<Rightarrow> (Inr (y # ys), p' # ps')))"

text \<open>\<^verbatim>\<open>Layer.forward\<close> (lines 62 to 64).\<close>

definition forward ::
  "neuron_cfg \<Rightarrow> layer \<Rightarrow> real list \<Rightarrow> (error + real list) \<times> layer" where
  "forward cfg l xs =
     (case compute_outputs cfg (neurons l) xs of
        (r, ps') \<Rightarrow> (r, l\<lparr>neurons := ps', inputs := Some xs\<rparr>))"

text \<open>
  \<^verbatim>\<open>Layer.backward\<close> (lines 47 to 52): the assertion, \<^verbatim>\<open>compute_delta\<close> on the pairs of
  \<^verbatim>\<open>zip(neurons, downstream)\<close>, then \<^verbatim>\<open>reduce\<close> of the pairwise sums over the
  \<^verbatim>\<open>weight_delta\<close> vectors.
\<close>

definition backward ::
  "neuron_cfg \<Rightarrow> layer \<Rightarrow> real list \<Rightarrow> (error + real list) \<times> layer" where
  "backward cfg l downstream =
     (if length (neurons l) \<noteq> length downstream then (Inl (AssertionError 47), l)
      else (let ps' = map2 (compute_delta cfg) (neurons l) downstream
            in (reduce_py (map2 (+)) (map weight_delta ps'), l\<lparr>neurons := ps'\<rparr>)))"

text \<open>The loop of \<^verbatim>\<open>Layer.update_weights\<close>.\<close>

fun update_neurons ::
  "neuron_cfg \<Rightarrow> perceptron list \<Rightarrow> real list \<Rightarrow> (error + unit) \<times> perceptron list" where
  "update_neurons cfg [] xs = (Inr (), [])"
| "update_neurons cfg (p # ps) xs =
     (case update_weight cfg p xs of
        (Inl e, p') \<Rightarrow> (Inl e, p' # ps)
      | (Inr u, p') \<Rightarrow>
          (case update_neurons cfg ps xs of (r, ps') \<Rightarrow> (r, p' # ps')))"

text \<open>
  \<^verbatim>\<open>Layer.update_weights\<close> (lines 71 and 72). Before any forward pass the stored inputs
  are \<^verbatim>\<open>None\<close>, which the first neuron cannot iterate over.
\<close>

definition update_weights :: "neuron_cfg \<Rightarrow> layer \<Rightarrow> (error + unit) \<times> layer" where
  "update_weights cfg l =
     (case inputs l of
        None \<Rightarrow> (if neurons l = [] then (Inr (), l) else (Inl TypeError, l))
      | Some xs \<Rightarrow>
          (case update_neurons cfg (neurons l) xs of (r, ps') \<Rightarrow> (r, l\<lparr>neurons := ps'\<rparr>)))"

section \<open>Network\<close>

record network =
  iteration :: int
  layer_num :: int
  label_count :: int
  layers :: "layer list"

text \<open>
  The list comprehension of \<^verbatim>\<open>NeuralNetwork.__init__\<close> (lines 113 and 114) over the pairs
  (width, previous width), \<open>i\<close> being the index of \<^verbatim>\<open>enumerate\<close>.
\<close>

fun build_layers ::
  "(nat \<Rightarrow> nat \<Rightarrow> real list) \<Rightarrow> real list list option list \<Rightarrow> nat \<Rightarrow> (int \<times> int) list
     \<Rightarrow> error + layer list" where
  "build_layers rnd ws i [] = Inr []"
| "build_layers rnd ws i ((c, p) # cps) =
     (if length ws \<le> i then Inl IndexError
      else (case Layer_init c p (ws ! i) (rnd i) of
              Inl e \<Rightarrow> Inl e
            | Inr l \<Rightarrow>
                (case build_layers rnd ws (Suc i) cps of
                   Inl e \<Rightarrow> Inl e
                 | Inr ls \<Rightarrow> Inr (l # ls))))"

text \<open>
  \<^verbatim>\<open>NeuralNetwork.__init__\<close> (lines 104 to 116). The second component is the caller's
  list \<^verbatim>\<open>neurons\<close> as the call leaves it: the append of line 107 comes before the
  assertion of line 109. The activation is part of the configuration; \<open>rnd i j\<close> is the
  random draw of neuron \<open>j\<close> of layer \<open>i\<close>.
\<close>

definition NeuralNetwork_init ::
  "int \<Rightarrow> int \<Rightarrow> int \<Rightarrow> int \<Rightarrow> int list \<Rightarrow> real list list list option
     \<Rightarrow> (nat \<Rightarrow> nat \<Rightarrow> real list) \<Rightarrow> (error + network) \<times> int list" where
  "NeuralNetwork_init iter input_count labels hidden_layers neurons_arg ws rnd =
     (let lnum = hidden_layers + 1;
          ns = neurons_arg @ [labels]
      in if int (length ns) \<noteq> lnum then (Inl (AssertionError 109), ns)
         else (let ws' = (case ws of None \<Rightarrow> replicate (nat lnum) None
                          | Some w \<Rightarrow> map Some w)
               in (case build_layers rnd ws' 0 (zip ns (input_count # ns)) of
                     Inl e \<Rightarrow> (Inl e, ns)
                   | Inr ls \<Rightarrow>
                       (Inr \<lparr>iteration = iter, layer_num = lnum,
                             label_count = labels, layers = ls\<rparr>, ns))))"

text \<open>The forward loop: each layer's output is the next layer's input.\<close>

fun forward_layers ::
  "neuron_cfg \<Rightarrow> layer list \<Rightarrow> real list \<Rightarrow> (error + real list) \<times> layer list" where
  "forward_layers cfg [] xs = (Inr xs, [])"
| "forward_layers cfg (l # ls) xs =
     (case forward cfg l xs of
        (Inl e, l') \<Rightarrow> (Inl e, l' # ls)
      | (Inr ys, l') \<Rightarrow>
          (case forward_layers cfg ls ys of (r, ls') \<Rightarrow> (r, l' # ls')))"

text \<open>
  The loop \<^verbatim>\<open>for layer in seq: inputs = layer.backward(inputs)\<close> over a sequence of
  layers in the order given.
\<close>

fun backward_seq ::
  "neuron_cfg \<Rightarrow> layer list \<Rightarrow> real list \<Rightarrow> (error + real list) \<times> layer list" where
  "backward_seq cfg [] ds = (Inr ds, [])"
| "backward_seq cfg (l # ls) ds =
     (case backward cfg l ds of
        (Inl e, l') \<Rightarrow> (Inl e, l' # ls)
      | (Inr r, l') \<Rightarrow>
          (case backward_seq cfg ls r of (x, ls') \<Rightarrow> (x, l' # ls')))"

text \<open>
  Lines 149 and 150: the loop runs over \<^verbatim>\<open>self.__layers__[::-1]\<close>, a reversed copy of the
  list holding the same layer objects; the layers are returned in the network's order.
\<close>

definition backward_layers ::
  "neuron_cfg \<Rightarrow> layer list \<Rightarrow> real list \<Rightarrow> (error + real list) \<times> layer list" where
  "backward_layers cfg ls ds =
     (case backward_seq cfg (rev ls) ds of (r, ls') \<Rightarrow> (r, rev ls'))"

text \<open>Lines 153 and 154.\<close>

fun update_layers :: "neuron_cfg \<Rightarrow> layer list \<Rightarrow> (error + unit) \<times> layer list" where
  "update_layers cfg [] = (Inr (), [])"
| "update_layers cfg (l # ls) =
     (case update_weights cfg l of
        (Inl e, l') \<Rightarrow> (Inl e, l' # ls)
      | (Inr u, l') \<Rightarrow>
          (case update_layers cfg ls of (r, ls') \<Rightarrow> (r, l' # ls')))"

text \<open>\<^verbatim>\<open>NeuralNetwork.train_instance\<close> (lines 127 to 154).\<close>

definition train_instance ::
  "neuron_cfg \<Rightarrow> network \<Rightarrow> real list \<Rightarrow> (error + unit) \<times> network" where
  "train_instance cfg net instance =
     (case py_last instance of
        Inl e \<Rightarrow> (Inl e, net)
      | Inr x \<Rightarrow>
          (case py_setitem (replicate (nat (label_count net)) 0) (py_int x) 1 of
             Inl e \<Rightarrow> (Inl e, net)
           | Inr labels \<Rightarrow>
               (case forward_layers cfg (layers net) (butlast instance) of
                  (Inl e, ls1) \<Rightarrow> (Inl e, net\<lparr>layers := ls1\<rparr>)
                | (Inr out, ls1) \<Rightarrow>
                    (case backward_layers cfg ls1 (map2 (-) labels out) of
                       (Inl e, ls2) \<Rightarrow> (Inl e, net\<lparr>layers := ls2\<rparr>)
                     | (Inr r, ls2) \<Rightarrow>
                         (case update_layers cfg ls2 of
                            (u, ls3) \<Rightarrow> (u, net\<lparr>layers := ls3\<rparr>))))))"

text \<open>\<^verbatim>\<open>NeuralNetwork.test_instance\<close> (lines 157 to 164).\<close>

definition test_instance ::
  "neuron_cfg \<Rightarrow> network \<Rightarrow> real list \<Rightarrow> (error + bool) \<times> network" where
  "test_instance cfg net instance =
     (case py_last instance of
        Inl e \<Rightarrow> (Inl e, net)
      | Inr x \<Rightarrow>
          (case forward_layers cfg (layers net) (butlast instance) of
             (Inl e, ls1) \<Rightarrow> (Inl e, net\<lparr>layers := ls1\<rparr>)
           | (Inr out, ls1) \<Rightarrow>
               (case py_max out of
                  Inl e \<Rightarrow> (Inl e, net\<lparr>layers := ls1\<rparr>)
                | Inr m \<Rightarrow>
                    (case py_index out m of
                       Inl e \<Rightarrow> (Inl e, net\<lparr>layers := ls1\<rparr>)
                     | Inr i \<Rightarrow> (Inr (py_int x = int i), net\<lparr>layers := ls1\<rparr>)))))"

text \<open>The inner loop of \<^verbatim>\<open>train\<close>: one pass over the instances.\<close>

fun train_pass ::
  "neuron_cfg \<Rightarrow> network \<Rightarrow> real list list \<Rightarrow> (error + unit) \<times> network" where
  "train_pass cfg net [] = (Inr (), net)"
| "train_pass cfg net (i # insts) =
     (case train_instance cfg net i of
        (Inl e, net') \<Rightarrow> (Inl e, net')
      | (Inr u, net') \<Rightarrow> train_pass cfg net' insts)"

text \<open>The outer loop of \<^verbatim>\<open>train\<close>: \<open>k\<close> passes are left to run.\<close>

fun train_iters ::
  "neuron_cfg \<Rightarrow> nat \<Rightarrow> network \<Rightarrow> real list list \<Rightarrow> (error + unit) \<times> network" where
  "train_iters cfg 0 net insts = (Inr (), net)"
| "train_iters cfg (Suc k) net insts =
     (case train_pass cfg net insts of
        (Inl e, net') \<Rightarrow> (Inl e, net')
      | (Inr u, net') \<Rightarrow> train_iters cfg k net' insts)"

text \<open>
  \<^verbatim>\<open>NeuralNetwork.train\<close> (lines 167 to 169); \<^verbatim>\<open>range(n)\<close> is empty for \<open>n \<le> 0\<close>.
\<close>

definition train ::
  "neuron_cfg \<Rightarrow> network \<Rightarrow> real list list \<Rightarrow> (error + unit) \<times> network" where
  "train cfg net insts = train_iters cfg (nat (iteration net)) net insts"

text \<open>The loop of \<^verbatim>\<open>test\<close> (lines 173 to 175), \<open>positive\<close> being the running count.\<close>

fun test_loop ::
  "neuron_cfg \<Rightarrow> network \<Rightarrow> nat \<Rightarrow> real list list \<Rightarrow> (error + nat) \<times> network" where
  "test_loop cfg net positive [] = (Inr positive, net)"
| "test_loop cfg net positive (i # insts) =
     (case test_instance cfg net i of
        (Inl e, net') \<Rightarrow> (Inl e, net')
      | (Inr b, net') \<Rightarrow>
          test_loop cfg net' (if b then positive + 1 else positive) insts)"

text \<open>\<^verbatim>\<open>NeuralNetwork.test\<close> (lines 172 to 176).\<close>

definition test ::
  "neuron_cfg \<Rightarrow> network \<Rightarrow> real list list \<Rightarrow> (error + real) \<times> network" where
  "test cfg net insts =
     (case test_loop cfg net 0 insts of
        (Inl e, net') \<Rightarrow> (Inl e, net')
      | (Inr positive, net') \<Rightarrow>
          (if length insts = 0 then (Inl ZeroDivisionError, net')
           else (Inr (real positive / real (length insts)), net')))"

section \<open>Notions the claims are stated with\<close>



text \<open>The one-hot vector of length \<open>n\<close> for the label \<open>k\<close>, in the specification's words.\<close>

definition one_hot_spec :: "nat \<Rightarrow> nat \<Rightarrow> real list" where
  "one_hot_spec n k = map (\<lambda>i. if i = k then 1 else 0) [0..<n]"

text \<open>The seed of the backward phase, \<open>target\<^sub>i - output\<^sub>i\<close> at every position both have.\<close>

definition seed_spec :: "real list \<Rightarrow> real list \<Rightarrow> real list" where
  "seed_spec target out =
     map (\<lambda>i. target ! i - out ! i) [0..<min (length target) (length out)]"

text \<open>
  A chain of layers fed \<open>n\<close> inputs: every neuron of a layer takes as many inputs as the
  layer before it has neurons (section 3 of the specification).
\<close>

fun chained :: "nat \<Rightarrow> layer list \<Rightarrow> bool" where
  "chained n [] = True"
| "chained n (l # ls) =
     (list_all (\<lambda>p. previous_dimension p = int n) (neurons l)
      \<and> chained (length (neurons l)) ls)"

text \<open>
  An instance of the right shape for a network: features for the first layer and a label,
  and at least one neuron in the final layer.
\<close>

definition shaped :: "network \<Rightarrow> real list \<Rightarrow> bool" where
  "shaped net instance =
     (instance \<noteq> [] \<and> layers net \<noteq> [] \<and> neurons (last (layers net)) \<noteq> []
      \<and> chained (length instance - 1) (layers net))"

text \<open>All weight vectors of a network, layer by layer and neuron by neuron.\<close>

definition weights_of :: "network \<Rightarrow> real list list list" where
  "weights_of net = map (\<lambda>l. map weights (neurons l)) (layers net)"

text \<open>The output every neuron has stored, layer by layer.\<close>

definition outputs_of :: "network \<Rightarrow> real list list" where
  "outputs_of net = map (\<lambda>l. map last_output (neurons l)) (layers net)"

text \<open>
  A network with the caches of the forward pass blanked: the inputs a layer stored and the
  output a neuron stored. Two states with the same image differ in those caches only.
\<close>

definition uncached_neuron :: "perceptron \<Rightarrow> perceptron" where
  "uncached_neuron p = p\<lparr>last_output := 0\<rparr>"

definition uncached_layer :: "layer \<Rightarrow> layer" where
  "uncached_layer l = l\<lparr>neurons := map uncached_neuron (neurons l), inputs := None\<rparr>"

definition uncached :: "network \<Rightarrow> network" where
  "uncached net = net\<lparr>layers := map uncached_layer (layers net)\<rparr>"

text \<open>
  A procedure run on every element of a sequence, in order, each run on the state the
  run before left; the first exception ends it.
\<close>

definition run_each ::
  "('s \<Rightarrow> 'a \<Rightarrow> (error + unit) \<times> 's) \<Rightarrow> 's \<Rightarrow> 'a list \<Rightarrow> (error + unit) \<times> 's" where
  "run_each f s xs =
     foldl (\<lambda>(r, s') x. case r of Inl e \<Rightarrow> (Inl e, s') | Inr u \<Rightarrow> f s' x) (Inr (), s) xs"

subsection \<open>Small networks to run the code on\<close>

definition cfg_id :: neuron_cfg where
  "cfg_id = \<lparr>activation = (\<lambda>x. x), activation_partial = (\<lambda>y. 1), learning_rate = 1 / 10\<rparr>"

definition rnd_zero :: "nat \<Rightarrow> nat \<Rightarrow> real list" where
  "rnd_zero i j = [0, 0]"

definition neuron_u :: perceptron where
  "neuron_u = \<lparr>previous_dimension = 1, weights = [2, 1], last_output = 0, delta = 0\<rparr>"

definition neuron_v :: perceptron where
  "neuron_v = \<lparr>previous_dimension = 1, weights = [3, 0], last_output = 0, delta = 0\<rparr>"

definition neuron_w :: perceptron where
  "neuron_w = \<lparr>previous_dimension = 2, weights = [1, 1, 0], last_output = 0, delta = 0\<rparr>"

definition layer_empty :: layer where
  "layer_empty = \<lparr>dimension = 0, neurons = [], inputs = None\<rparr>"

definition layer_two :: layer where
  "layer_two = \<lparr>dimension = 2, neurons = [neuron_u, neuron_v], inputs = None\<rparr>"

definition layer_out :: layer where
  "layer_out = \<lparr>dimension = 1, neurons = [neuron_w], inputs = None\<rparr>"

definition layer_tie :: layer where
  "layer_tie = \<lparr>dimension = 2, neurons = [neuron_u, neuron_u], inputs = None\<rparr>"

definition net_two :: network where
  "net_two = \<lparr>iteration = 0, layer_num = 2, label_count = 1,
              layers = [layer_two, layer_out]\<rparr>"

definition net_tie :: network where
  "net_tie = \<lparr>iteration = 0, layer_num = 1, label_count = 2, layers = [layer_tie]\<rparr>"

definition net_twice :: network where
  "net_twice = \<lparr>iteration = 2, layer_num = 1, label_count = 2, layers = [layer_tie]\<rparr>"

section \<open>Properties\<close>

subsection \<open>Layer.backward\<close>

lemma foldl_map2_add_length:
  "length (foldl (map2 (+)) (a::real list) bs) = Min (set (map length (a # bs)))"
proof (induction bs arbitrary: a)
  case Nil
  then show ?case by simp
next
  case (Cons b bs)
  have "Min (insert (min (length a) (length b)) (length ` set bs))
        = Min (insert (length a) (insert (length b) (length ` set bs)))"
    by (cases "bs = []") (simp_all add: min.assoc)
  with Cons show ?case by simp
qed

lemma foldl_map2_add_nth:
  "i < length (foldl (map2 (+)) (a::real list) bs) \<Longrightarrow>
   foldl (map2 (+)) a bs ! i = a ! i + (\<Sum>b\<leftarrow>bs. b ! i)"
proof (induction bs arbitrary: a)
  case Nil
  then show ?case by simp
next
  case (Cons b bs)
  from Cons.prems have i: "i < length (foldl (map2 (+)) (map2 (+) a b) bs)"
    by simp
  then have "i < Min (set (map length (map2 (+) a b # bs)))"
    by (simp only: foldl_map2_add_length)
  then have "i < length (map2 (+) a b)"
    by simp
  then have "map2 (+) a b ! i = a ! i + b ! i"
    by simp
  with Cons.IH [OF i] show ?case
    by simp
qed

lemma reduce_py_sum:
  assumes "(vs :: real list list) \<noteq> []"
  shows "\<exists>r. reduce_py (map2 (+)) vs = Inr r
           \<and> length r = Min (set (map length vs))
           \<and> (\<forall>i<length r. r ! i = (\<Sum>v\<leftarrow>vs. v ! i))"
proof -
  from assms obtain a bs where vs: "vs = a # bs"
    by (cases vs) auto
  let ?r = "foldl (map2 (+)) (a::real list) bs"
  have "reduce_py (map2 (+)) vs = Inr ?r"
    by (simp add: vs reduce_py_def)
  moreover have "length ?r = Min (set (map length vs))"
    unfolding vs by (rule foldl_map2_add_length)
  moreover have "\<forall>i<length ?r. ?r ! i = (\<Sum>v\<leftarrow>vs. v ! i)"
    by (simp add: vs foldl_map2_add_nth)
  ultimately show ?thesis
    by blast
qed

text \<open>
  C7. \<^verbatim>\<open>Layer.backward\<close> raises the AssertionError of line 47 exactly when the downstream
  vector and the layer's neurons differ in number; with equal lengths that assertion
  never fires.
\<close>

theorem C7_backward_assertion:
  "fst (backward cfg l ds) = Inl (AssertionError 47)
     \<longleftrightarrow> length (neurons l) \<noteq> length ds"
  by (simp add: backward_def reduce_py_def Let_def split: list.splits)

theorem C7_backward_assertion_witness:
  "fst (backward cfg_id layer_two [1]) = Inl (AssertionError 47)
   \<and> fst (backward cfg_id layer_two [1, 2]) \<noteq> Inl (AssertionError 47)"
  using C7_backward_assertion [of cfg_id layer_two "[1]"]
    C7_backward_assertion [of cfg_id layer_two "[1, 2]"]
  by (simp add: layer_two_def)

text \<open>
  C2, amended. For a layer with at least one neuron and a downstream vector with one
  entry per neuron, \<^verbatim>\<open>Layer.backward\<close> returns normally; neuron \<open>k\<close> has become
  \<open>compute_delta\<close> of itself on entry \<open>k\<close>, nothing else of the layer has changed, and
  the value returned is the element-wise sum of the neurons' \<open>weight_delta\<close> vectors.
\<close>

theorem C2_backward_sums_weight_deltas:
  assumes "neurons l \<noteq> []" and "length ds = length (neurons l)"
  shows "\<exists>r l'. backward cfg l ds = (Inr r, l')
           \<and> dimension l' = dimension l \<and> inputs l' = inputs l
           \<and> length (neurons l') = length (neurons l)
           \<and> (\<forall>k<length ds. neurons l' ! k = compute_delta cfg (neurons l ! k) (ds ! k))
           \<and> length r = Min (set (map (\<lambda>p. length (weight_delta p)) (neurons l')))
           \<and> (\<forall>i<length r. r ! i = (\<Sum>p\<leftarrow>neurons l'. weight_delta p ! i))"
proof -
  let ?ps = "map2 (compute_delta cfg) (neurons l) ds"
  let ?l' = "l\<lparr>neurons := ?ps\<rparr>"
  from assms have ne: "map weight_delta ?ps \<noteq> []"
    by (cases "neurons l"; cases ds) auto
  from reduce_py_sum [OF ne] obtain r where
    r: "reduce_py (map2 (+)) (map weight_delta ?ps) = Inr r"
    and len: "length r = Min (set (map length (map weight_delta ?ps)))"
    and nth: "\<forall>i<length r. r ! i = (\<Sum>v\<leftarrow>map weight_delta ?ps. v ! i)"
    by blast
  have b: "backward cfg l ds = (Inr r, ?l')"
    using assms(2) r by (simp add: backward_def Let_def)
  have k: "\<forall>k<length ds. neurons ?l' ! k = compute_delta cfg (neurons l ! k) (ds ! k)"
    using assms(2) by simp
  have len': "length r = Min (set (map (\<lambda>p. length (weight_delta p)) (neurons ?l')))"
    using len by (simp add: comp_def)
  have nth': "\<forall>i<length r. r ! i = (\<Sum>p\<leftarrow>neurons ?l'. weight_delta p ! i)"
    using nth by (simp add: comp_def)
  have "length (neurons ?l') = length (neurons l)"
    using assms(2) by simp
  with b k len' nth' show ?thesis
    by (intro exI [of _ r] exI [of _ ?l']) simp
qed

theorem C2_backward_sums_weight_deltas_witness:
  "neurons layer_two \<noteq> [] \<and> length [1, 2 :: real] = length (neurons layer_two)
   \<and> fst (backward cfg_id layer_two [1, 2]) = Inr [8, 1]
   \<and> (\<exists>r l'. backward cfg_id layer_two [1, 2] = (Inr r, l')
         \<and> (\<forall>i<length r. r ! i = (\<Sum>p\<leftarrow>neurons l'. weight_delta p ! i)))"
proof -
  have h1: "neurons layer_two \<noteq> []"
    by (simp add: layer_two_def)
  have h2: "length [1, 2 :: real] = length (neurons layer_two)"
    by (simp add: layer_two_def)
  have v: "fst (backward cfg_id layer_two [1, 2]) = Inr [8, 1]"
    by (simp add: backward_def reduce_py_def compute_delta_def weight_delta_def
        layer_two_def neuron_u_def neuron_v_def cfg_id_def)
  from C2_backward_sums_weight_deltas [OF h1 h2, of cfg_id] h1 h2 v show ?thesis
    by blast
qed

text \<open>
  C2 as stated fails on a layer without neurons: the empty downstream vector has the
  right length, and \<^verbatim>\<open>reduce\<close> raises TypeError on the empty list of vectors.
\<close>

theorem C2_counterexample:
  "length ([] :: real list) = length (neurons layer_empty)
   \<and> backward cfg_id layer_empty [] = (Inl TypeError, layer_empty)"
  by (simp add: backward_def reduce_py_def layer_empty_def)

subsection \<open>The backward phase of the network\<close>

lemma backward_seq_append:
  "backward_seq cfg (xs @ ys) ds =
     (case backward_seq cfg xs ds of
        (Inl e, xs') \<Rightarrow> (Inl e, xs' @ ys)
      | (Inr r, xs') \<Rightarrow> (case backward_seq cfg ys r of (x, ys') \<Rightarrow> (x, xs' @ ys')))"
  by (induction xs arbitrary: ds) (auto split: prod.splits sum.splits)






subsection \<open>Construction\<close>

lemma Layer_init_error: "Layer_init c p w r = Inl e \<Longrightarrow> e = AssertionError 28"
  by (simp add: Layer_init_def Let_def split: if_splits)

lemma build_layers_error:
  "build_layers rnd ws i cps = Inl e \<Longrightarrow> e = IndexError \<or> e = AssertionError 28"
proof (induction rnd ws i cps rule: build_layers.induct)
  case (1 rnd ws i)
  then show ?case by simp
next
  case (2 rnd ws i c p cps)
  then show ?case
    by (auto split: if_splits sum.splits dest: Layer_init_error)
qed

lemma NeuralNetwork_init_neurons:
  "snd (NeuralNetwork_init it ic lc hl ns ws rnd) = ns @ [lc]"
  by (simp add: NeuralNetwork_init_def Let_def split: sum.splits)

lemma NeuralNetwork_init_assertion:
  "fst (NeuralNetwork_init it ic lc hl ns ws rnd) = Inl (AssertionError 109)
     \<longleftrightarrow> int (length (ns @ [lc])) \<noteq> hl + 1"
proof (cases "int (length (ns @ [lc])) = hl + 1")
  case False
  then show ?thesis
    by (simp add: NeuralNetwork_init_def Let_def)
next
  case True
  have "fst (NeuralNetwork_init it ic lc hl ns ws rnd) \<noteq> Inl (AssertionError 109)"
    using True
    by (auto simp: NeuralNetwork_init_def Let_def split: sum.splits
        dest!: build_layers_error)
  with True show ?thesis
    by simp
qed

text \<open>
  C3, amended. Construction appends \<open>label_count\<close> to the caller's list before it
  validates it; the list is left extended whether or not construction succeeds, and the
  assertion of line 109 fires exactly when the extended list is not \<open>hidden_layers + 1\<close>
  long. A second construction on the same list object checks a list that is two longer
  than the original: with the same \<open>hidden_layers\<close> a list that passed the first check
  fails the second.
\<close>

theorem C3_init_appends_then_checks:
  "snd (NeuralNetwork_init it ic lc hl ns ws rnd) = ns @ [lc]
   \<and> (fst (NeuralNetwork_init it ic lc hl ns ws rnd) = Inl (AssertionError 109)
        \<longleftrightarrow> int (length (ns @ [lc])) \<noteq> hl + 1)
   \<and> (fst (NeuralNetwork_init it' ic' lc' hl'
              (snd (NeuralNetwork_init it ic lc hl ns ws rnd)) ws' rnd')
          = Inl (AssertionError 109)
        \<longleftrightarrow> int (length ns) + 2 \<noteq> hl' + 1)
   \<and> (fst (NeuralNetwork_init it ic lc hl ns ws rnd) \<noteq> Inl (AssertionError 109)
        \<longrightarrow> fst (NeuralNetwork_init it' ic' lc' hl
                   (snd (NeuralNetwork_init it ic lc hl ns ws rnd)) ws' rnd')
              = Inl (AssertionError 109))"
  by (simp add: NeuralNetwork_init_neurons NeuralNetwork_init_assertion)

theorem C3_init_appends_then_checks_witness:
  "fst (NeuralNetwork_init 5 3 2 2 [4, 4] None rnd_zero) \<noteq> Inl (AssertionError 109)
   \<and> snd (NeuralNetwork_init 5 3 2 2 [4, 4] None rnd_zero) = [4, 4, 2]
   \<and> fst (NeuralNetwork_init 5 3 2 2
            (snd (NeuralNetwork_init 5 3 2 2 [4, 4] None rnd_zero)) None rnd_zero)
       = Inl (AssertionError 109)"
proof -
  note t = C3_init_appends_then_checks
    [of 5 3 2 2 "[4, 4]" None rnd_zero 5 3 2 2 None rnd_zero]
  from t have a: "fst (NeuralNetwork_init 5 3 2 2 [4, 4] None rnd_zero)
                    \<noteq> Inl (AssertionError 109)"
    by simp
  from t have b: "snd (NeuralNetwork_init 5 3 2 2 [4, 4] None rnd_zero) = [4, 4, 2]"
    by simp
  from t a have c: "fst (NeuralNetwork_init 5 3 2 2
                      (snd (NeuralNetwork_init 5 3 2 2 [4, 4] None rnd_zero)) None rnd_zero)
                    = Inl (AssertionError 109)"
    by blast
  from a b c show ?thesis
    by blast
qed

text \<open>
  C3 as stated fails: the list of a first, successful construction is handed to a second
  one with the same arguments, and the check is not trivially true but fails.
\<close>

theorem C3_counterexample:
  "\<not> isl (fst (NeuralNetwork_init 1 1 1 1 [1] None rnd_zero))
   \<and> fst (NeuralNetwork_init 1 1 1 1
            (snd (NeuralNetwork_init 1 1 1 1 [1] None rnd_zero)) None rnd_zero)
       = Inl (AssertionError 109)"
proof -
  have "\<not> isl (fst (NeuralNetwork_init 1 1 1 1 [1] None rnd_zero))"
    by (simp add: NeuralNetwork_init_def Layer_init_def Let_def)
  then show ?thesis
    by (simp add: NeuralNetwork_init_neurons NeuralNetwork_init_assertion)
qed

subsection \<open>Training\<close>

lemma train_pass_append:
  "train_pass cfg net (xs @ ys) =
     (case train_pass cfg net xs of
        (Inl e, net') \<Rightarrow> (Inl e, net')
      | (Inr u, net') \<Rightarrow> train_pass cfg net' ys)"
  by (induction xs arbitrary: net) (auto split: prod.splits sum.splits)

lemma train_iters_concat:
  "train_iters cfg k net insts = train_pass cfg net (concat (replicate k insts))"
proof (induction k arbitrary: net)
  case 0
  then show ?case by simp
next
  case (Suc k)
  then show ?case
    by (simp add: train_pass_append split: prod.splits sum.splits)
qed

lemma foldl_raised:
  "foldl (\<lambda>(r, s') x. case r of Inl e \<Rightarrow> (Inl e, s') | Inr u \<Rightarrow> f s' x) (Inl e, s) xs
     = (Inl e, s)"
  by (induction xs) simp_all

lemma run_each_Nil: "run_each f s [] = (Inr (), s)"
  by (simp add: run_each_def)

lemma run_each_Cons:
  "run_each f s (x # xs) =
     (case f s x of
        (Inl e, s') \<Rightarrow> (Inl e, s')
      | (Inr u, s') \<Rightarrow> run_each f s' xs)"
proof -
  obtain r s' where c: "f s x = (r, s')"
    by (cases "f s x")
  show ?thesis
  proof (cases r)
    case (Inl e)
    with c show ?thesis
      by (simp add: run_each_def foldl_raised)
  next
    case (Inr u)
    with c show ?thesis
      by (simp add: run_each_def)
  qed
qed

lemma train_pass_run_each:
  "train_pass cfg net insts = run_each (train_instance cfg) net insts"
proof (induction insts arbitrary: net)
  case Nil
  then show ?case
    by (simp add: run_each_Nil)
next
  case (Cons i insts)
  then show ?case
    by (simp add: run_each_Cons split: prod.splits sum.splits)
qed

text \<open>
  C8. With \<open>iteration = 0\<close>, \<^verbatim>\<open>train\<close> returns with the network exactly as it was, so no
  training step has run and every weight is unchanged. In general \<^verbatim>\<open>train\<close> is
  \<^verbatim>\<open>train_instance\<close>, the whole procedure for one instance, run on each instance in
  dataset order, each run starting from the network the run before left, the whole
  dataset repeated \<open>iteration\<close> times; only an exception ends it earlier.
\<close>

theorem C8_train_runs_iteration_passes:
  "(iteration net = 0 \<longrightarrow>
      train cfg net insts = (Inr (), net)
      \<and> weights_of (snd (train cfg net insts)) = weights_of net)
   \<and> train cfg net insts
       = run_each (train_instance cfg) net
           (concat (replicate (nat (iteration net)) insts))"
  by (simp add: train_def train_iters_concat train_pass_run_each run_each_Nil)

theorem C8_train_runs_iteration_passes_witness:
  "iteration net_tie = 0
   \<and> train cfg_id net_tie [[1, 0], [2, 1]] = (Inr (), net_tie)
   \<and> weights_of (snd (train cfg_id net_tie [[1, 0], [2, 1]])) = weights_of net_tie
   \<and> iteration net_twice = 2
   \<and> isl (fst (train_instance cfg_id net_twice [1, 0])) = False
   \<and> train cfg_id net_twice [[1, 0]]
       = train_instance cfg_id (snd (train_instance cfg_id net_twice [1, 0])) [1, 0]
   \<and> weights_of (snd (train cfg_id net_twice [[1, 0]]))
       = [[[41 / 25, 16 / 25], [73 / 50, 23 / 50]]]"
proof -
  have z: "iteration net_tie = 0"
    by (simp add: net_tie_def)
  with C8_train_runs_iteration_passes [of net_tie cfg_id "[[1, 0], [2, 1]]"]
  have a: "train cfg_id net_tie [[1, 0], [2, 1]] = (Inr (), net_tie)"
    and b: "weights_of (snd (train cfg_id net_tie [[1, 0], [2, 1]])) = weights_of net_tie"
    by blast+
  have i2: "iteration net_twice = 2"
    by (simp add: net_twice_def)
  have c: "concat (replicate (nat (iteration net_twice)) [[1, 0 :: real]]) = [[1, 0], [1, 0]]"
    by (simp add: i2 eval_nat_numeral)
  have rep: "replicate 2 (0 :: real) = [0, 0]"
    by (simp add: numeral_2_eq_2)
  define net1 where "net1 = \<lparr>iteration = 2, layer_num = 1, label_count = 2,
        layers = [\<lparr>dimension = 2,
           neurons = [\<lparr>previous_dimension = 1, weights = [9 / 5, 4 / 5],
                        last_output = 3, delta = - 2\<rparr>,
                      \<lparr>previous_dimension = 1, weights = [17 / 10, 7 / 10],
                        last_output = 3, delta = - 3\<rparr>],
           inputs = Some [1]\<rparr>]\<rparr>"
  have n1: "train_instance cfg_id net_twice [1, 0] = (Inr (), net1)"
    unfolding net1_def
    by (simp add: train_instance_def py_last_def py_setitem_def py_int_def rep Let_def
        backward_layers_def backward_def reduce_py_def forward_def compute_output_def
        compute_delta_def weight_delta_def update_weights_def update_weight_def
        net_twice_def layer_tie_def neuron_u_def cfg_id_def)
  from C8_train_runs_iteration_passes [of net_twice cfg_id "[[1, 0]]"]
  have "train cfg_id net_twice [[1, 0]]
          = run_each (train_instance cfg_id) net_twice [[1, 0], [1, 0]]"
    by (simp only: c)
  then have d: "train cfg_id net_twice [[1, 0]]
          = train_instance cfg_id (snd (train_instance cfg_id net_twice [1, 0])) [1, 0]"
    by (simp add: run_each_Cons run_each_Nil n1 split: prod.splits sum.splits)
  have e: "weights_of (snd (train_instance cfg_id net1 [1, 0]))
             = [[[41 / 25, 16 / 25], [73 / 50, 23 / 50]]]"
    unfolding net1_def
    by (simp add: train_instance_def py_last_def py_setitem_def py_int_def rep Let_def
        backward_layers_def backward_def reduce_py_def forward_def compute_output_def
        compute_delta_def weight_delta_def update_weights_def update_weight_def
        weights_of_def cfg_id_def)
  from d n1 e have f: "weights_of (snd (train cfg_id net_twice [[1, 0]]))
             = [[[41 / 25, 16 / 25], [73 / 50, 23 / 50]]]"
    by simp
  from n1 have g: "isl (fst (train_instance cfg_id net_twice [1, 0])) = False"
    by simp
  from z a b i2 g d f show ?thesis
    by blast
qed

lemma py_setitem_one_hot:
  assumes "0 \<le> k" and "k < int n"
  shows "py_setitem (replicate n 0) k 1 = Inr (one_hot_spec n (nat k))"
proof -
  have "(replicate n (0::real))[nat k := 1] = one_hot_spec n (nat k)"
    by (rule nth_equalityI) (auto simp: one_hot_spec_def nth_list_update)
  with assms show ?thesis
    by (simp add: py_setitem_def Let_def)
qed

lemma map2_minus_seed: "map2 (-) target out = seed_spec target out"
  by (rule nth_equalityI) (simp_all add: seed_spec_def)

text \<open>
  C4. For an instance whose label lies in \<open>[0, label_count)\<close>, as the data model of the
  specification has it, and whose forward pass returns \<open>out\<close>, the final layer's output,
  \<^verbatim>\<open>train_instance\<close> continues with the backward phase seeded with
  \<open>target\<^sub>i - out\<^sub>i\<close>, where \<open>target\<close> is the one-hot vector of length \<open>label_count\<close>
  for the label, the instance's last element cast to int.
\<close>

theorem C4_one_hot_label_and_seed:
  assumes "instance \<noteq> []"
    and "0 \<le> py_int (last instance)"
    and "py_int (last instance) < label_count net"
    and "forward_layers cfg (layers net) (butlast instance) = (Inr out, ls1)"
  shows "train_instance cfg net instance =
           (case backward_layers cfg ls1
                   (seed_spec (one_hot_spec (nat (label_count net))
                                 (nat (py_int (last instance)))) out) of
              (Inl e, ls2) \<Rightarrow> (Inl e, net\<lparr>layers := ls2\<rparr>)
            | (Inr r, ls2) \<Rightarrow>
                (case update_layers cfg ls2 of (u, ls3) \<Rightarrow> (u, net\<lparr>layers := ls3\<rparr>)))"
proof -
  from assms(1) have l: "py_last instance = Inr (last instance)"
    by (cases "instance") (simp_all add: py_last_def)
  from assms(2,3) have "py_int (last instance) < int (nat (label_count net))"
    by simp
  with assms(2) have s: "py_setitem (replicate (nat (label_count net)) 0)
                           (py_int (last instance)) 1
                         = Inr (one_hot_spec (nat (label_count net))
                                  (nat (py_int (last instance))))"
    by (rule py_setitem_one_hot)
  show ?thesis
    by (simp add: train_instance_def l s assms(4) map2_minus_seed)
qed

theorem C4_one_hot_label_and_seed_witness:
  "[1, 0 :: real] \<noteq> [] \<and> 0 \<le> py_int (last [1, 0])
   \<and> py_int (last [1, 0]) < label_count net_tie
   \<and> fst (forward_layers cfg_id (layers net_tie) (butlast [1, 0])) = Inr [3, 3]
   \<and> one_hot_spec (nat (label_count net_tie)) (nat (py_int (last [1, 0]))) = [1, 0]
   \<and> seed_spec [1, 0] [3, 3] = [- 2, - 3]
   \<and> weights_of (snd (train_instance cfg_id net_tie [1, 0]))
       = [[[9 / 5, 4 / 5], [17 / 10, 7 / 10]]]"
proof -
  let ?ls = "snd (forward_layers cfg_id (layers net_tie) (butlast [1, 0]))"
  have h2: "0 \<le> py_int (last [1, 0])"
    by (simp add: py_int_def)
  have h3: "py_int (last [1, 0]) < label_count net_tie"
    by (simp add: py_int_def net_tie_def)
  have f: "fst (forward_layers cfg_id (layers net_tie) (butlast [1, 0])) = Inr [3, 3]"
    by (simp add: net_tie_def layer_tie_def neuron_u_def cfg_id_def forward_def
        compute_output_def)
  then have h4: "forward_layers cfg_id (layers net_tie) (butlast [1, 0]) = (Inr [3, 3], ?ls)"
    by (metis prod.collapse)
  have ls: "?ls = [\<lparr>dimension = 2,
                    neurons = [neuron_u\<lparr>last_output := 3\<rparr>, neuron_u\<lparr>last_output := 3\<rparr>],
                    inputs = Some [1]\<rparr>]"
    by (simp add: net_tie_def layer_tie_def neuron_u_def cfg_id_def forward_def
        compute_output_def)
  have o: "one_hot_spec (nat (label_count net_tie)) (nat (py_int (last [1, 0]))) = [1, 0]"
    by (simp add: one_hot_spec_def py_int_def net_tie_def upt_rec)
  have s: "seed_spec [1, 0] [3, 3] = [- 2, - 3]"
    by (simp add: seed_spec_def upt_rec)
  have h1: "[1, 0 :: real] \<noteq> []"
    by simp
  note t = C4_one_hot_label_and_seed [OF h1 h2 h3 h4]
  have "weights_of (snd (train_instance cfg_id net_tie [1, 0]))
          = [[[9 / 5, 4 / 5], [17 / 10, 7 / 10]]]"
    unfolding t o s ls
    by (simp add: backward_layers_def backward_def reduce_py_def compute_delta_def
        weight_delta_def update_weights_def update_weight_def weights_of_def
        neuron_u_def cfg_id_def)
  with h2 h3 f o s show ?thesis
    by simp
qed

subsection \<open>Testing\<close>

lemma py_max_Max:
  assumes "xs \<noteq> []"
  shows "py_max xs = Inr (Max (set xs))"
proof -
  from assms obtain x ys where xs: "xs = x # ys"
    by (cases xs) auto
  have "(\<lambda>m y. if m < y then y else m) = (\<lambda>m y :: real. max m y)"
    by (auto simp: max_def fun_eq_iff)
  then have "foldl (\<lambda>m y. if m < y then y else m) x ys = fold max ys x"
    by (simp add: foldl_conv_fold max.commute)
  also have "\<dots> = Max (set (x # ys))"
    by (rule Max.set_eq_fold [symmetric])
  finally show ?thesis
    by (simp add: xs py_max_def)
qed

lemma py_index_first:
  "v \<in> set xs \<Longrightarrow>
   \<exists>i. py_index xs v = Inr i \<and> i < length xs \<and> xs ! i = v \<and> (\<forall>j<i. xs ! j \<noteq> v)"
proof (induction xs)
  case Nil
  then show ?case by simp
next
  case (Cons x xs)
  show ?case
  proof (cases "x = v")
    case True
    then show ?thesis by simp
  next
    case False
    with Cons.prems have "v \<in> set xs"
      by simp
    from Cons.IH [OF this] obtain i where
      i: "py_index xs v = Inr i" "i < length xs" "xs ! i = v" "\<forall>j<i. xs ! j \<noteq> v"
      by blast
    have "\<forall>j<Suc i. (x # xs) ! j \<noteq> v"
    proof (intro allI impI)
      fix j
      assume "j < Suc i"
      with False i(4) show "(x # xs) ! j \<noteq> v"
        by (cases j) auto
    qed
    with False i show ?thesis
      by (intro exI [of _ "Suc i"]) simp
  qed
qed

lemma first_index_unique:
  fixes xs :: "'a list"
  assumes "xs ! i = v" and "\<forall>j<i. xs ! j \<noteq> v"
    and "xs ! k = v" and "\<forall>j<k. xs ! j \<noteq> v"
  shows "i = k"
proof (rule ccontr)
  assume "i \<noteq> k"
  then consider "i < k" | "k < i"
    by arith
  then show False
  proof cases
    case 1
    with assms(4) have "xs ! i \<noteq> v"
      by blast
    with assms(1) show False
      by simp
  next
    case 2
    with assms(2) have "xs ! k \<noteq> v"
      by blast
    with assms(3) show False
      by simp
  qed
qed

lemma fst_test_instance:
  "fst (test_instance cfg net instance) =
     (case py_last instance of
        Inl e \<Rightarrow> Inl e
      | Inr x \<Rightarrow>
          (case fst (forward_layers cfg (layers net) (butlast instance)) of
             Inl e \<Rightarrow> Inl e
           | Inr out \<Rightarrow>
               (case py_max out of
                  Inl e \<Rightarrow> Inl e
                | Inr m \<Rightarrow>
                    (case py_index out m of
                       Inl e \<Rightarrow> Inl e
                     | Inr i \<Rightarrow> Inr (py_int x = int i)))))"
  by (simp add: test_instance_def split: sum.splits prod.splits)

lemma snd_test_instance:
  "snd (test_instance cfg net instance) =
     (if instance = [] then net
      else net\<lparr>layers := snd (forward_layers cfg (layers net) (butlast instance))\<rparr>)"
  by (simp add: test_instance_def py_last_def split: sum.splits prod.splits list.splits)

lemma test_instance_first_max:
  assumes "instance \<noteq> []"
    and "fst (forward_layers cfg (layers net) (butlast instance)) = Inr out"
    and "out \<noteq> []"
  shows "\<exists>i. fst (test_instance cfg net instance) = Inr (py_int (last instance) = int i)
           \<and> i < length out \<and> out ! i = Max (set out)
           \<and> (\<forall>j<i. out ! j \<noteq> Max (set out))"
proof -
  from assms(1) have l: "py_last instance = Inr (last instance)"
    by (cases "instance") (simp_all add: py_last_def)
  from assms(3) have m: "py_max out = Inr (Max (set out))"
    by (rule py_max_Max)
  from assms(3) have "Max (set out) \<in> set out"
    by simp
  from py_index_first [OF this] obtain i where
    i: "py_index out (Max (set out)) = Inr i" "i < length out"
       "out ! i = Max (set out)" "\<forall>j<i. out ! j \<noteq> Max (set out)"
    by blast
  have "fst (test_instance cfg net instance) = Inr (py_int (last instance) = int i)"
    by (simp add: fst_test_instance l assms(2) m i(1))
  with i show ?thesis
    by blast
qed

lemma compute_outputs_total:
  "list_all (\<lambda>p. previous_dimension p = int (length xs)) ps \<Longrightarrow>
   \<exists>ys ps'. compute_outputs cfg ps xs = (Inr ys, ps') \<and> length ys = length ps"
  by (induction ps) (auto simp: compute_output_def Let_def)

lemma forward_total:
  assumes "list_all (\<lambda>p. previous_dimension p = int (length xs)) (neurons l)"
  shows "\<exists>ys l'. forward cfg l xs = (Inr ys, l') \<and> length ys = length (neurons l)"
proof -
  from compute_outputs_total [OF assms] obtain ys ps' where
    "compute_outputs cfg (neurons l) xs = (Inr ys, ps')" "length ys = length (neurons l)"
    by blast
  then show ?thesis
    by (simp add: forward_def)
qed

lemma forward_layers_total:
  "chained (length xs) ls \<Longrightarrow>
   \<exists>out ls'. forward_layers cfg ls xs = (Inr out, ls')
     \<and> length out = (if ls = [] then length xs else length (neurons (last ls)))"
proof (induction ls arbitrary: xs)
  case Nil
  then show ?case by simp
next
  case (Cons l ls)
  from Cons.prems have a: "list_all (\<lambda>p. previous_dimension p = int (length xs)) (neurons l)"
    and c: "chained (length (neurons l)) ls"
    by simp_all
  from forward_total [OF a] obtain ys l' where
    f: "forward cfg l xs = (Inr ys, l')" and n: "length ys = length (neurons l)"
    by blast
  from c n have "chained (length ys) ls"
    by simp
  from Cons.IH [OF this] obtain out ls' where
    "forward_layers cfg ls ys = (Inr out, ls')"
    "length out = (if ls = [] then length ys else length (neurons (last ls)))"
    by blast
  with f n show ?case
    by simp
qed

lemma test_instance_total:
  assumes "shaped net instance"
  shows "\<exists>b. fst (test_instance cfg net instance) = Inr b"
proof -
  from assms have ne: "instance \<noteq> []" and ls: "layers net \<noteq> []"
    and la: "neurons (last (layers net)) \<noteq> []"
    and ch: "chained (length (butlast instance)) (layers net)"
    by (simp_all add: shaped_def)
  from forward_layers_total [OF ch] ls obtain out ls' where
    f: "forward_layers cfg (layers net) (butlast instance) = (Inr out, ls')"
    and n: "length out = length (neurons (last (layers net)))"
    by (metis (full_types))
  from n la have "out \<noteq> []"
    by auto
  with test_instance_first_max [OF ne, of cfg net out] f show ?thesis
    by auto
qed

text \<open>
  C5. \<^verbatim>\<open>test_instance\<close> returns true exactly when the forward pass returns an output
  whose first greatest element stands at the index equal to the label, the instance's
  last element cast to int. Its only effect is that of the forward pass, and on an
  instance of the right shape it returns a truth value.
\<close>

theorem C5_test_instance_argmax:
  "(fst (test_instance cfg net instance) = Inr True \<longleftrightarrow>
      instance \<noteq> []
      \<and> (\<exists>out i. fst (forward_layers cfg (layers net) (butlast instance)) = Inr out
            \<and> i < length out \<and> out ! i = Max (set out)
            \<and> (\<forall>j<i. out ! j \<noteq> Max (set out))
            \<and> py_int (last instance) = int i))
   \<and> snd (test_instance cfg net instance) =
       (if instance = [] then net
        else net\<lparr>layers := snd (forward_layers cfg (layers net) (butlast instance))\<rparr>)
   \<and> (shaped net instance \<longrightarrow> (\<exists>b. fst (test_instance cfg net instance) = Inr b))"
proof (intro conjI)
  show "fst (test_instance cfg net instance) = Inr True \<longleftrightarrow>
      instance \<noteq> []
      \<and> (\<exists>out i. fst (forward_layers cfg (layers net) (butlast instance)) = Inr out
            \<and> i < length out \<and> out ! i = Max (set out)
            \<and> (\<forall>j<i. out ! j \<noteq> Max (set out))
            \<and> py_int (last instance) = int i)" (is "?L \<longleftrightarrow> ?R")
  proof
    assume L: ?L
    then have ne: "instance \<noteq> []"
      by (auto simp: fst_test_instance py_last_def)
    from L obtain out where
      f: "fst (forward_layers cfg (layers net) (butlast instance)) = Inr out"
      by (auto simp: fst_test_instance split: sum.splits)
    from L f have "out \<noteq> []"
      by (auto simp: fst_test_instance py_max_def split: sum.splits)
    from test_instance_first_max [OF ne f this] L f ne show ?R
      by auto
  next
    assume R: ?R
    then obtain out i where ne: "instance \<noteq> []"
      and f: "fst (forward_layers cfg (layers net) (butlast instance)) = Inr out"
      and i: "i < length out" "out ! i = Max (set out)" "\<forall>j<i. out ! j \<noteq> Max (set out)"
      and lab: "py_int (last instance) = int i"
      by blast
    from i(1) have o: "out \<noteq> []"
      by auto
    from test_instance_first_max [OF ne f o] obtain k where
      k: "fst (test_instance cfg net instance) = Inr (py_int (last instance) = int k)"
         "k < length out" "out ! k = Max (set out)" "\<forall>j<k. out ! j \<noteq> Max (set out)"
      by blast
    from k(3,4) i(2,3) have "k = i"
      by (rule first_index_unique)
    with k(1) lab show ?L
      by simp
  qed
next
  show "snd (test_instance cfg net instance) =
       (if instance = [] then net
        else net\<lparr>layers := snd (forward_layers cfg (layers net) (butlast instance))\<rparr>)"
    by (rule snd_test_instance)
next
  show "shaped net instance \<longrightarrow> (\<exists>b. fst (test_instance cfg net instance) = Inr b)"
    by (blast intro: test_instance_total)
qed

theorem C5_test_instance_argmax_witness:
  "shaped net_two [1, 0]
   \<and> fst (forward_layers cfg_id (layers net_two) (butlast [1, 0])) = Inr [6]
   \<and> fst (test_instance cfg_id net_two [1, 0]) = Inr True
   \<and> fst (test_instance cfg_id net_two [1, 1]) = Inr False"
proof -
  note t0 = C5_test_instance_argmax [of cfg_id net_two "[1, 0]"]
  note t1 = C5_test_instance_argmax [of cfg_id net_two "[1, 1]"]
  have s0: "shaped net_two [1, 0]" and s1: "shaped net_two [1, 1]"
    by (simp_all add: shaped_def net_two_def layer_two_def layer_out_def
        neuron_u_def neuron_v_def neuron_w_def)
  have f: "fst (forward_layers cfg_id (layers net_two) [1]) = Inr [6]"
    by (simp add: net_two_def layer_two_def layer_out_def neuron_u_def neuron_v_def
        neuron_w_def cfg_id_def forward_def compute_output_def)
  have "fst (test_instance cfg_id net_two [1, 0]) = Inr True"
    using t0 f by (simp add: py_int_def)
  moreover from t1 s1 obtain b where b: "fst (test_instance cfg_id net_two [1, 1]) = Inr b"
    by blast
  from t1 f have "fst (test_instance cfg_id net_two [1, 1]) \<noteq> Inr True"
    by (simp add: py_int_def)
  with b have "fst (test_instance cfg_id net_two [1, 1]) = Inr False"
    by (cases b) simp_all
  ultimately show ?thesis
    using s0 f by simp
qed

text \<open>
  C9. When the forward pass returns a non-empty output, the label is compared with the
  smallest index at which the output takes its greatest value: ties go to the lowest
  index.
\<close>

theorem C9_argmax_ties_lowest_index:
  assumes "instance \<noteq> []"
    and "fst (forward_layers cfg (layers net) (butlast instance)) = Inr out"
    and "out \<noteq> []"
  shows "fst (test_instance cfg net instance) =
           Inr (py_int (last instance)
                  = int (Min {i. i < length out \<and> out ! i = Max (set out)}))"
proof -
  from test_instance_first_max [OF assms] obtain i where
    t: "fst (test_instance cfg net instance) = Inr (py_int (last instance) = int i)"
    and i: "i < length out" "out ! i = Max (set out)" "\<forall>j<i. out ! j \<noteq> Max (set out)"
    by blast
  have "Min {k. k < length out \<and> out ! k = Max (set out)} = i"
  proof (rule Min_eqI)
    show "finite {k. k < length out \<and> out ! k = Max (set out)}"
      by simp
    show "i \<in> {k. k < length out \<and> out ! k = Max (set out)}"
      using i by simp
    fix y
    assume "y \<in> {k. k < length out \<and> out ! k = Max (set out)}"
    then have "out ! y = Max (set out)"
      by simp
    with i(3) have "\<not> y < i"
      by blast
    then show "i \<le> y"
      by simp
  qed
  with t show ?thesis
    by simp
qed

theorem C9_argmax_ties_lowest_index_witness:
  "[1, 0 :: real] \<noteq> []
   \<and> fst (forward_layers cfg_id (layers net_tie) (butlast [1, 0])) = Inr [3, 3]
   \<and> [3, 3 :: real] \<noteq> []
   \<and> fst (test_instance cfg_id net_tie [1, 0]) = Inr True
   \<and> fst (test_instance cfg_id net_tie [1, 1]) = Inr False"
proof -
  have f: "fst (forward_layers cfg_id (layers net_tie) (butlast [1, 0])) = Inr [3, 3]"
    by (simp add: net_tie_def layer_tie_def neuron_u_def cfg_id_def forward_def
        compute_output_def)
  then have g: "fst (forward_layers cfg_id (layers net_tie) (butlast [1, 1])) = Inr [3, 3]"
    by simp
  have m: "Min {i. i < length [3, 3 :: real] \<and> [3, 3 :: real] ! i = Max (set [3, 3])} = 0"
    by (rule Min_eqI) auto
  have "fst (test_instance cfg_id net_tie [1, 0]) = Inr True"
    using C9_argmax_ties_lowest_index [OF _ f] m
    by (simp add: py_int_def)
  moreover have "fst (test_instance cfg_id net_tie [1, 1]) = Inr False"
    using C9_argmax_ties_lowest_index [OF _ g] m
    by (simp add: py_int_def)
  ultimately show ?thesis
    using f by simp
qed

subsection \<open>What the forward pass leaves alone\<close>

lemma uncached_neuron_eqD:
  assumes "uncached_neuron p = uncached_neuron q"
  shows "previous_dimension p = previous_dimension q \<and> weights p = weights q"
proof -
  from assms have "previous_dimension (uncached_neuron p) = previous_dimension (uncached_neuron q)"
    and "weights (uncached_neuron p) = weights (uncached_neuron q)"
    by simp_all
  then show ?thesis
    by (simp add: uncached_neuron_def)
qed

lemma compute_output_uncached:
  "compute_output cfg p xs = (r, p') \<Longrightarrow> uncached_neuron p' = uncached_neuron p"
  by (auto simp: compute_output_def uncached_neuron_def Let_def split: if_splits)

lemma compute_output_fst_cong:
  "uncached_neuron p = uncached_neuron q \<Longrightarrow>
   fst (compute_output cfg p xs) = fst (compute_output cfg q xs)"
  by (drule uncached_neuron_eqD) (simp add: compute_output_def Let_def)

lemma fst_compute_outputs_Cons:
  "fst (compute_outputs cfg (p # ps) xs) =
     (case fst (compute_output cfg p xs) of
        Inl e \<Rightarrow> Inl e
      | Inr y \<Rightarrow>
          (case fst (compute_outputs cfg ps xs) of
             Inl e \<Rightarrow> Inl e
           | Inr ys \<Rightarrow> Inr (y # ys)))"
  by (simp split: prod.splits sum.splits)

lemma compute_outputs_uncached:
  "compute_outputs cfg ps xs = (r, ps') \<Longrightarrow>
   map uncached_neuron ps' = map uncached_neuron ps"
proof (induction ps arbitrary: r ps')
  case Nil
  then show ?case by simp
next
  case (Cons p ps)
  obtain r1 p1 where c: "compute_output cfg p xs = (r1, p1)"
    by (cases "compute_output cfg p xs")
  then have u: "uncached_neuron p1 = uncached_neuron p"
    by (rule compute_output_uncached)
  show ?case
  proof (cases r1)
    case (Inl e)
    with Cons.prems c u show ?thesis
      by auto
  next
    case (Inr y)
    obtain r2 ps2 where d: "compute_outputs cfg ps xs = (r2, ps2)"
      by (cases "compute_outputs cfg ps xs")
    from Cons.IH [OF d] have "map uncached_neuron ps2 = map uncached_neuron ps" .
    with Cons.prems c d u Inr show ?thesis
      by (auto split: sum.splits)
  qed
qed

lemma compute_outputs_fst_cong:
  "map uncached_neuron ps = map uncached_neuron qs \<Longrightarrow>
   fst (compute_outputs cfg ps xs) = fst (compute_outputs cfg qs xs)"
proof (induction ps arbitrary: qs)
  case Nil
  then show ?case by simp
next
  case (Cons p ps)
  then obtain q qs' where qs: "qs = q # qs'"
    and pq: "uncached_neuron p = uncached_neuron q"
    and r: "map uncached_neuron ps = map uncached_neuron qs'"
    by (cases qs) auto
  have "fst (compute_output cfg p xs) = fst (compute_output cfg q xs)"
    using pq by (rule compute_output_fst_cong)
  moreover have "fst (compute_outputs cfg ps xs) = fst (compute_outputs cfg qs' xs)"
    using r by (rule Cons.IH)
  ultimately show ?case
    unfolding qs fst_compute_outputs_Cons by (simp split: sum.splits)
qed

lemma uncached_layer_eqD:
  assumes "uncached_layer l = uncached_layer m"
  shows "map uncached_neuron (neurons l) = map uncached_neuron (neurons m)"
proof -
  from assms have "neurons (uncached_layer l) = neurons (uncached_layer m)"
    by simp
  then show ?thesis
    by (simp add: uncached_layer_def)
qed

lemma forward_uncached:
  assumes "forward cfg l xs = (r, l')"
  shows "uncached_layer l' = uncached_layer l"
proof -
  obtain r1 ps1 where c: "compute_outputs cfg (neurons l) xs = (r1, ps1)"
    by (cases "compute_outputs cfg (neurons l) xs")
  then have "map uncached_neuron ps1 = map uncached_neuron (neurons l)"
    by (rule compute_outputs_uncached)
  with assms c show ?thesis
    by (auto simp: forward_def uncached_layer_def)
qed

lemma forward_fst_cong:
  assumes "uncached_layer l = uncached_layer m"
  shows "fst (forward cfg l xs) = fst (forward cfg m xs)"
proof -
  have "fst (forward cfg k xs) = fst (compute_outputs cfg (neurons k) xs)" for k
    by (simp add: forward_def split: prod.splits)
  with compute_outputs_fst_cong [OF uncached_layer_eqD [OF assms]] show ?thesis
    by simp
qed

lemma fst_forward_layers_Cons:
  "fst (forward_layers cfg (l # ls) xs) =
     (case fst (forward cfg l xs) of
        Inl e \<Rightarrow> Inl e
      | Inr ys \<Rightarrow> fst (forward_layers cfg ls ys))"
  by (simp split: prod.splits sum.splits)

lemma forward_layers_uncached:
  "forward_layers cfg ls xs = (r, ls') \<Longrightarrow>
   map uncached_layer ls' = map uncached_layer ls"
proof (induction ls arbitrary: xs r ls')
  case Nil
  then show ?case by simp
next
  case (Cons l ls)
  obtain r1 l1 where c: "forward cfg l xs = (r1, l1)"
    by (cases "forward cfg l xs")
  then have u: "uncached_layer l1 = uncached_layer l"
    by (rule forward_uncached)
  show ?case
  proof (cases r1)
    case (Inl e)
    with Cons.prems c u show ?thesis
      by auto
  next
    case (Inr ys)
    obtain r2 ls2 where d: "forward_layers cfg ls ys = (r2, ls2)"
      by (cases "forward_layers cfg ls ys")
    from Cons.IH [OF d] have "map uncached_layer ls2 = map uncached_layer ls" .
    with Cons.prems c d u Inr show ?thesis
      by auto
  qed
qed

lemma forward_layers_fst_cong:
  "map uncached_layer ls = map uncached_layer ms \<Longrightarrow>
   fst (forward_layers cfg ls xs) = fst (forward_layers cfg ms xs)"
proof (induction ls arbitrary: ms xs)
  case Nil
  then show ?case by simp
next
  case (Cons l ls)
  then obtain m ms' where ms: "ms = m # ms'"
    and lm: "uncached_layer l = uncached_layer m"
    and r: "map uncached_layer ls = map uncached_layer ms'"
    by (cases ms) auto
  have "fst (forward cfg l xs) = fst (forward cfg m xs)"
    using lm by (rule forward_fst_cong)
  moreover have "fst (forward_layers cfg ls ys) = fst (forward_layers cfg ms' ys)" for ys
    using r by (rule Cons.IH)
  ultimately show ?case
    unfolding ms fst_forward_layers_Cons by (simp split: sum.splits)
qed

lemma uncached_eqD:
  assumes "uncached net = uncached net'"
  shows "map uncached_layer (layers net) = map uncached_layer (layers net')"
proof -
  from assms have "layers (uncached net) = layers (uncached net')"
    by simp
  then show ?thesis
    by (simp add: uncached_def)
qed

lemma test_instance_uncached:
  "uncached (snd (test_instance cfg net instance)) = uncached net"
proof -
  obtain r ls where "forward_layers cfg (layers net) (butlast instance) = (r, ls)"
    by (cases "forward_layers cfg (layers net) (butlast instance)")
  from forward_layers_uncached [OF this] this show ?thesis
    by (simp add: snd_test_instance uncached_def)
qed

lemma test_instance_fst_cong:
  "uncached net = uncached net' \<Longrightarrow>
   fst (test_instance cfg net instance) = fst (test_instance cfg net' instance)"
  using forward_layers_fst_cong [OF uncached_eqD, of net net' cfg "butlast instance"]
  by (simp add: fst_test_instance cong: sum.case_cong)

lemma test_loop_uncached:
  "uncached (snd (test_loop cfg net positive insts)) = uncached net"
proof (induction insts arbitrary: net positive)
  case Nil
  then show ?case by simp
next
  case (Cons i insts)
  obtain r net' where t: "test_instance cfg net i = (r, net')"
    by (cases "test_instance cfg net i")
  with test_instance_uncached [of cfg net i] have u: "uncached net' = uncached net"
    by simp
  show ?case
  proof (cases r)
    case (Inl e)
    with t u show ?thesis by simp
  next
    case (Inr b)
    with t u Cons.IH [of net'] show ?thesis by simp
  qed
qed

lemma test_uncached: "uncached (snd (test cfg net insts)) = uncached net"
proof -
  obtain r net' where t: "test_loop cfg net 0 insts = (r, net')"
    by (cases "test_loop cfg net 0 insts")
  with test_loop_uncached [of cfg net 0 insts] have "uncached net' = uncached net"
    by simp
  with t show ?thesis
    by (cases r) (simp_all add: test_def)
qed

lemma weights_of_uncached: "weights_of (uncached net) = weights_of net"
  by (simp add: weights_of_def uncached_def uncached_layer_def uncached_neuron_def comp_def)

lemma weights_of_cong: "uncached net = uncached net' \<Longrightarrow> weights_of net = weights_of net'"
  by (metis weights_of_uncached)

text \<open>
  C10, amended. \<^verbatim>\<open>test_instance\<close> and \<^verbatim>\<open>test\<close> never modify a weight: for every state
  and every instance or sequence of instances, also when the call raises, all weight
  vectors afterwards are those before, and the states before and after differ at most in
  the inputs each layer has stored and the output each neuron has stored.
\<close>

theorem C10_testing_keeps_weights:
  "weights_of (snd (test_instance cfg net instance)) = weights_of net
   \<and> uncached (snd (test_instance cfg net instance)) = uncached net
   \<and> weights_of (snd (test cfg net insts)) = weights_of net
   \<and> uncached (snd (test cfg net insts)) = uncached net"
proof (intro conjI)
  show "uncached (snd (test_instance cfg net instance)) = uncached net"
    by (rule test_instance_uncached)
  then show "weights_of (snd (test_instance cfg net instance)) = weights_of net"
    by (rule weights_of_cong)
  show "uncached (snd (test cfg net insts)) = uncached net"
    by (rule test_uncached)
  then show "weights_of (snd (test cfg net insts)) = weights_of net"
    by (rule weights_of_cong)
qed

text \<open>
  C10 as stated fails where it says that only the layers' stored inputs change: the
  forward pass of \<^verbatim>\<open>test_instance\<close> also stores every neuron's output.
\<close>

theorem C10_counterexample:
  "outputs_of net_tie = [[0, 0]]
   \<and> outputs_of (snd (test_instance cfg_id net_tie [1, 0])) = [[3, 3]]"
  by (simp add: snd_test_instance outputs_of_def net_tie_def layer_tie_def neuron_u_def
      cfg_id_def forward_def compute_output_def)

subsection \<open>Accuracy\<close>

lemma test_loop_count:
  "\<forall>i\<in>set insts. \<exists>b. fst (test_instance cfg net i) = Inr b \<Longrightarrow>
   fst (test_loop cfg net positive insts) =
     Inr (positive + length (filter (\<lambda>i. fst (test_instance cfg net i) = Inr True) insts))"
proof (induction insts arbitrary: net positive)
  case Nil
  then show ?case by simp
next
  case (Cons i insts)
  from Cons.prems obtain b where b: "fst (test_instance cfg net i) = Inr b"
    by auto
  then obtain net' where t: "test_instance cfg net i = (Inr b, net')"
    by (cases "test_instance cfg net i") simp
  with test_instance_uncached [of cfg net i] have u: "uncached net' = uncached net"
    by simp
  have same: "fst (test_instance cfg net' j) = fst (test_instance cfg net j)" for j
    by (rule test_instance_fst_cong [OF u])
  from Cons.prems have "\<forall>j\<in>set insts. \<exists>b. fst (test_instance cfg net' j) = Inr b"
    by (simp add: same)
  from Cons.IH [OF this] have
    "fst (test_loop cfg net' (if b then positive + 1 else positive) insts) =
       Inr ((if b then positive + 1 else positive)
            + length (filter (\<lambda>i. fst (test_instance cfg net i) = Inr True) insts))"
    by (simp add: same)
  with t b show ?case
    by simp
qed

text \<open>
  C6. On the empty dataset \<^verbatim>\<open>test\<close> raises ZeroDivisionError. On \<open>N > 0\<close> instances,
  each of which \<^verbatim>\<open>test_instance\<close> answers, it returns \<open>P / N\<close>, \<open>P\<close> being the number of
  instances on which \<^verbatim>\<open>test_instance\<close> returns true; instances of the right shape are all
  answered.
\<close>

theorem C6_test_accuracy:
  "test cfg net [] = (Inl ZeroDivisionError, net)
   \<and> (insts \<noteq> [] \<and> (\<forall>i\<in>set insts. \<exists>b. fst (test_instance cfg net i) = Inr b) \<longrightarrow>
        fst (test cfg net insts) =
          Inr (real (length (filter (\<lambda>i. fst (test_instance cfg net i) = Inr True) insts))
               / real (length insts)))
   \<and> (\<forall>i\<in>set insts. shaped net i \<longrightarrow> (\<exists>b. fst (test_instance cfg net i) = Inr b))"
proof (intro conjI impI ballI)
  show "test cfg net [] = (Inl ZeroDivisionError, net)"
    by (simp add: test_def)
next
  assume a: "insts \<noteq> [] \<and> (\<forall>i\<in>set insts. \<exists>b. fst (test_instance cfg net i) = Inr b)"
  then have "fst (test_loop cfg net 0 insts) =
      Inr (0 + length (filter (\<lambda>i. fst (test_instance cfg net i) = Inr True) insts))"
    by (intro test_loop_count) simp
  with a show "fst (test cfg net insts) =
          Inr (real (length (filter (\<lambda>i. fst (test_instance cfg net i) = Inr True) insts))
               / real (length insts))"
    by (auto simp: test_def split: prod.splits sum.splits)
next
  fix i
  assume "shaped net i"
  then show "\<exists>b. fst (test_instance cfg net i) = Inr b"
    by (rule test_instance_total)
qed

theorem C6_test_accuracy_witness:
  "test cfg_id net_tie [] = (Inl ZeroDivisionError, net_tie)
   \<and> shaped net_tie [1, 0] \<and> shaped net_tie [1, 1] \<and> shaped net_tie [2, 0]
   \<and> fst (test cfg_id net_tie [[1, 0], [1, 1], [2, 0]]) = Inr (2 / 3)"
proof -
  note t = C6_test_accuracy [of cfg_id net_tie "[[1, 0], [1, 1], [2, 0]]"]
  have s: "\<forall>i\<in>set [[1, 0], [1, 1], [2, 0]]. shaped net_tie i"
    by (simp add: shaped_def net_tie_def layer_tie_def neuron_u_def)
  with t have a: "\<forall>i\<in>set [[1, 0], [1, 1], [2, 0]].
                    \<exists>b. fst (test_instance cfg_id net_tie i) = Inr b"
    by blast
  have v: "fst (test_instance cfg_id net_tie [1, 0]) = Inr True"
    "fst (test_instance cfg_id net_tie [1, 1]) = Inr False"
    "fst (test_instance cfg_id net_tie [2, 0]) = Inr True"
    by (simp_all add: fst_test_instance py_last_def py_max_def py_int_def net_tie_def
        layer_tie_def neuron_u_def cfg_id_def forward_def compute_output_def)
  from t a have "fst (test cfg_id net_tie [[1, 0], [1, 1], [2, 0]]) =
      Inr (real (length (filter (\<lambda>i. fst (test_instance cfg_id net_tie i) = Inr True)
                           [[1, 0], [1, 1], [2, 0]]))
           / real (length [[1, 0], [1, 1], [2 :: real, 0]]))"
    by blast
  then have "fst (test cfg_id net_tie [[1, 0], [1, 1], [2, 0]]) = Inr (2 / 3)"
    by (simp add: v)
  moreover from s have "shaped net_tie [1, 0] \<and> shaped net_tie [1, 1] \<and> shaped net_tie [2, 0]"
    by simp
  moreover from t have "test cfg_id net_tie [] = (Inl ZeroDivisionError, net_tie)"
    by blast
  ultimately show ?thesis
    by blast
qed

end
